theory Spec2Isabelle
  imports Complex_Main
begin

section \<open>Values\<close>

text \<open>
  Plain Python values, the ones the standard JSON encoder writes without help: the
  handler builds its response from dict literals, strings and \<open>int\<close>s, and
  \<open>NumpyEncoder.default\<close> returns \<open>int\<close>, \<open>float\<close> and list values.
  A dict literal keeps its insertion order, so it is an association list.
  Floating-point numbers are idealised as the real numbers they denote (finite values only).
\<close>

datatype json =
    JNull
  | JBool bool
  | JInt int
  | JFloat real
  | JStr string
  | JList "json list"
  | JObj "(string \<times> json) list"

text \<open>Dict lookup \<open>d[k]\<close> on a value; \<open>None\<close> where Python raises.\<close>

fun jget :: "string \<Rightarrow> json \<Rightarrow> json option" where
  "jget k (JObj kvs) = map_of kvs k"
| "jget k _ = None"

text \<open>
  Exceptions carry the message that \<open>str(error)\<close> gives. \<open>ExternalError\<close> stands for
  whatever an external collaborator raises (the OCR engine, the base64 decoder, the
  filesystem).
\<close>

datatype pyexc =
    TypeError string
  | IndexError string
  | AttributeError string
  | ExternalError string

fun str_exc :: "pyexc \<Rightarrow> string" where
  "str_exc (TypeError m) = m"
| "str_exc (IndexError m) = m"
| "str_exc (AttributeError m) = m"
| "str_exc (ExternalError m) = m"

section \<open>Numeric normalizer: \<open>NumpyEncoder.default\<close>\<close>

text \<open>
  The objects \<open>default\<close> can be handed: a NumPy integer scalar (\<open>np.integer\<close>), a NumPy
  floating scalar (\<open>np.floating\<close>), an \<open>np.ndarray\<close>, or an object of any other type,
  of which only the type name matters. An array is either zero-dimensional (one item)
  or has a first axis, along which it is the sequence of its sub-arrays. An array whose
  first axis has length zero, such as \<open>np.zeros((0, 3))\<close>, has no sub-arrays whatever
  its further dimensions are: it is \<open>Axis []\<close>, and only its first axis is recorded.
\<close>

datatype npscalar = NpInt int | NpFloat real | NpBool bool | NpStr string

datatype ndarray = Item npscalar | Axis "ndarray list"

datatype pyobj =
    NpInteger int
  | NpFloating real
  | NdArray ndarray
  | Other string

fun np_item :: "npscalar \<Rightarrow> json" where
  "np_item (NpInt i) = JInt i"
| "np_item (NpFloat x) = JFloat x"
| "np_item (NpBool b) = JBool b"
| "np_item (NpStr s) = JStr s"

text \<open>
  \<open>ndarray.tolist()\<close>: the list of the converted sub-arrays along the first axis; for
  a zero-dimensional array that is the scalar itself.
\<close>

fun tolist :: "ndarray \<Rightarrow> json" where
  "tolist (Item v) = np_item v"
| "tolist (Axis xs) = JList (map tolist xs)"

text \<open>Whether the array has one or more dimensions (\<open>a.ndim >= 1\<close>).\<close>

fun has_dimensions :: "ndarray \<Rightarrow> bool" where
  "has_dimensions (Item v) = False"
| "has_dimensions (Axis xs) = True"

text \<open>\<open>json.JSONEncoder.default\<close> always raises \<open>TypeError\<close>.\<close>

definition JSONEncoder_default :: "string \<Rightarrow> pyexc + json" where
  "JSONEncoder_default tyname =
     Inl (TypeError (''Object of type '' @ tyname @ '' is not JSON serializable''))"

definition NumpyEncoder_default :: "pyobj \<Rightarrow> pyexc + json" where
  "NumpyEncoder_default obj =
     (case obj of
        NpInteger i \<Rightarrow> Inr (JInt i)
      | NpFloating x \<Rightarrow> Inr (JFloat x)
      | NdArray a \<Rightarrow> Inr (tolist a)
      | Other tyname \<Rightarrow> JSONEncoder_default tyname)"

text \<open>A value free of NumPy types is trivially so in \<open>json\<close>; what remains to say is its shape.\<close>

fun is_list :: "json \<Rightarrow> bool" where
  "is_list (JList xs) = True"
| "is_list _ = False"

section \<open>Bounding-box reducer\<close>

text \<open>
  A detection is the triple \<open>(quad, text, confidence)\<close> that \<open>readtext\<close> returns;
  \<open>item[0][k]\<close> is the \<open>k\<close>-th corner, \<open>[x, y]\<close>.
\<close>

type_synonym point = "real \<times> real"

record quad =
  p0 :: point
  p1 :: point
  p2 :: point
  p3 :: point

record detection =
  det_quad :: quad
  det_text :: string
  det_conf :: real

text \<open>Python's \<open>int(x)\<close> on a number drops the fractional part: it rounds towards zero.\<close>

definition py_int :: "real \<Rightarrow> int" where
  "py_int x = (if x < 0 then - \<lfloor>- x\<rfloor> else \<lfloor>x\<rfloor>)"

definition bbox_x0 :: "quad \<Rightarrow> int" where
  "bbox_x0 q = py_int (min (fst (p0 q)) (fst (p3 q)))"

definition bbox_y0 :: "quad \<Rightarrow> int" where
  "bbox_y0 q = py_int (min (snd (p0 q)) (snd (p1 q)))"

definition bbox_x1 :: "quad \<Rightarrow> int" where
  "bbox_x1 q = py_int (max (fst (p1 q)) (fst (p2 q)))"

definition bbox_y1 :: "quad \<Rightarrow> int" where
  "bbox_y1 q = py_int (max (snd (p2 q)) (snd (p3 q)))"

definition bbox :: "quad \<Rightarrow> json" where
  "bbox q = JObj [(''x0'', JInt (bbox_x0 q)), (''y0'', JInt (bbox_y0 q)),
                  (''x1'', JInt (bbox_x1 q)), (''y1'', JInt (bbox_y1 q))]"

text \<open>The corner order the reducer relies on: top-left, top-right, bottom-right, bottom-left.\<close>

definition corner_convention :: "quad \<Rightarrow> bool" where
  "corner_convention q \<longleftrightarrow>
     max (fst (p0 q)) (fst (p3 q)) \<le> min (fst (p1 q)) (fst (p2 q)) \<and>
     max (snd (p0 q)) (snd (p1 q)) \<le> min (snd (p2 q)) (snd (p3 q))"

section \<open>Result assembler\<close>

text \<open>\<open>sep.join(xs)\<close>: the separator goes between neighbours only.\<close>

fun str_join :: "string \<Rightarrow> string list \<Rightarrow> string" where
  "str_join sep [] = []"
| "str_join sep [x] = x"
| "str_join sep (x # y # ys) = x @ sep @ str_join sep (y # ys)"

text \<open>
  The spec's wording of the joined text, for comparison: the first text, then every
  later text preceded by exactly one space.
\<close>

definition spec_space_joined :: "string list \<Rightarrow> string" where
  "spec_space_joined xs =
     (case xs of [] \<Rightarrow> [] | x # rest \<Rightarrow> x @ concat (map (\<lambda>t. CHR '' '' # t) rest))"

definition word_entry :: "detection \<Rightarrow> json" where
  "word_entry item = JObj [(''text'', JStr (det_text item)), (''bbox'', bbox (det_quad item))]"

definition format_result :: "detection list \<Rightarrow> json" where
  "format_result result =
     JObj [(''text'', JStr (str_join '' '' (map det_text result))),
           (''words'', JList (map word_entry result))]"

section \<open>Image ingestor\<close>

text \<open>
  \<open>s.split(sep)\<close> for a one-character separator: the pieces between the separators,
  always at least one piece.
\<close>

fun split_on :: "char \<Rightarrow> string \<Rightarrow> string list" where
  "split_on c [] = [] # []"
| "split_on c (x # xs) =
     (if x = c then [] # split_on c xs
      else (case split_on c xs of [] \<Rightarrow> [x] # [] | w # ws \<Rightarrow> (x # w) # ws))"

text \<open>List indexing with a natural index; out of range raises \<open>IndexError\<close>.\<close>

definition py_index :: "'a list \<Rightarrow> nat \<Rightarrow> pyexc + 'a" where
  "py_index xs i =
     (if i < length xs then Inr (xs ! i) else Inl (IndexError ''list index out of range''))"

text \<open>Line 66: \<open>request.form['image'].split(',')[1]\<close>.\<close>

definition base64_data :: "string \<Rightarrow> pyexc + string" where
  "base64_data field = py_index (split_on CHR '','' field) 1"

text \<open>The spec's wording of the payload: everything after the first comma.\<close>

definition after_first_comma :: "string \<Rightarrow> string" where
  "after_first_comma s = drop 1 (dropWhile (\<lambda>c. c \<noteq> CHR '','') s)"

text \<open>\<open>str(n)\<close> for an integer, in decimal.\<close>

fun digits :: "nat \<Rightarrow> string" where
  "digits n =
     (if n < 10 then [''0123456789'' ! n]
      else digits (n div 10) @ [''0123456789'' ! (n mod 10)])"

declare digits.simps [simp del]

definition str_int :: "int \<Rightarrow> string" where
  "str_int i = (if i < 0 then CHR ''-'' # digits (nat (- i)) else digits (nat i))"

text \<open>\<open>os.path.join(a, b)\<close> on POSIX: an absolute \<open>b\<close> replaces \<open>a\<close>.\<close>

definition os_path_join :: "string \<Rightarrow> string \<Rightarrow> string" where
  "os_path_join a b =
     (if b \<noteq> [] \<and> hd b = CHR ''/'' then b
      else if a = [] \<or> last a = CHR ''/'' then a @ b
      else a @ ''/'' @ b)"

type_synonym path = string
type_synonym bytes = string
type_synonym filesystem = "path \<rightharpoonup> bytes"

text \<open>
  The OCR engine is opaque: \<open>readtext\<close> reads the filesystem at a path and returns the
  detections or raises. \<open>image_path\<close> starts as \<open>None\<close> in the handler, hence the option.
\<close>

type_synonym reader = "filesystem \<Rightarrow> path option \<Rightarrow> pyexc + detection list"

text \<open>
  What the handler takes from its surroundings: the result of constructing
  \<open>easyocr.Reader(['en'])\<close>, \<open>tempfile.gettempdir()\<close>, \<open>time.time()\<close>,
  \<open>base64.b64decode\<close>, werkzeug's \<open>secure_filename\<close>, and the error (if any) that
  writing to a given path raises.
\<close>

record env =
  easyocr_Reader :: "pyexc + reader"
  gettempdir :: string
  time_time :: real
  b64decode :: "string \<Rightarrow> pyexc + bytes"
  secure_filename :: "string \<Rightarrow> string"
  write_error :: "path \<Rightarrow> pyexc option"

record upload =
  filename :: string
  content :: bytes

record request =
  req_files :: "string \<rightharpoonup> upload"
  req_form :: "string \<rightharpoonup> string"

text \<open>\<open>file.save(path)\<close> and \<open>open(path, 'wb').write(data)\<close>.\<close>

definition write_file :: "env \<Rightarrow> path \<Rightarrow> bytes \<Rightarrow> filesystem \<Rightarrow> (pyexc + path option) \<times> filesystem" where
  "write_file e image_path data fs =
     (case write_error e image_path of
        Some err \<Rightarrow> (Inl err, fs)
      | None \<Rightarrow> (Inr (Some image_path), fs(image_path \<mapsto> data)))"

text \<open>Lines 57 to 70: the value of \<open>image_path\<close> and the filesystem afterwards, or the exception.\<close>

definition ingest :: "env \<Rightarrow> request \<Rightarrow> filesystem \<Rightarrow> (pyexc + path option) \<times> filesystem" where
  "ingest e rq fs =
     (case req_files rq ''image'' of
        Some file \<Rightarrow>
          write_file e (os_path_join (gettempdir e) (secure_filename e (filename file)))
            (content file) fs
      | None \<Rightarrow>
          (case req_form rq ''image'' of
             Some field \<Rightarrow>
               (case base64_data field of
                  Inl err \<Rightarrow> (Inl err, fs)
                | Inr b64 \<Rightarrow>
                    (case b64decode e b64 of
                       Inl err \<Rightarrow> (Inl err, fs)
                     | Inr image_data \<Rightarrow>
                         write_file e
                           (os_path_join (gettempdir e)
                              (''image-'' @ str_int (py_int (time_time e)) @ ''.png''))
                           image_data fs))
           | None \<Rightarrow> (Inr None, fs)))"

section \<open>Engine state and the HTTP endpoints\<close>

text \<open>
  The module globals \<open>ocr\<close> and \<open>is_initialized\<close>, the filesystem, and a record of the
  paths \<open>readtext\<close> was called with.
\<close>

record state =
  ocr :: "reader option"
  is_initialized :: bool
  files :: filesystem
  readtext_calls :: "path option list"

record response =
  body :: json
  status :: nat

definition initialize_ocr :: "env \<Rightarrow> state \<Rightarrow> (pyexc + unit) \<times> state" where
  "initialize_ocr e s =
     (if ocr s = None then
        (case easyocr_Reader e of
           Inl err \<Rightarrow> (Inl err, s)
         | Inr rd \<Rightarrow> (Inr (), s\<lparr>ocr := Some rd, is_initialized := True\<rparr>))
      else (Inr (), s))"

definition health_check :: "state \<Rightarrow> (pyexc + response) \<times> state" where
  "health_check s =
     (Inr \<lparr>body = JObj [(''status'', JStr ''ok''), (''ocrInitialized'', JBool (is_initialized s))],
           status = 200\<rparr>, s)"

definition no_image_message :: string where
  \<open>no_image_message =
     ''No image provided. Send a file with field name "image" or a base64 encoded image in the request body.''\<close>

text \<open>
  What \<open>ocr.readtext\<close> raises while \<open>ocr\<close> is \<open>None\<close>; \<open>CHR 0x27\<close> is the single
  quote.
\<close>

definition no_reader_message :: string where
  "no_reader_message =
     [CHR 0x27] @ ''NoneType'' @ [CHR 0x27] @ '' object has no attribute '' @
     [CHR 0x27] @ ''readtext'' @ [CHR 0x27]"

text \<open>Lines 91 to 93: remove the temporary file if the path is set and the file exists.\<close>

definition cleanup :: "path option \<Rightarrow> filesystem \<Rightarrow> filesystem" where
  "cleanup image_path fs =
     (case image_path of
        None \<Rightarrow> fs
      | Some p \<Rightarrow> if p \<noteq> [] \<and> fs p \<noteq> None then fs(p := None) else fs)"

text \<open>The body of the \<open>try\<close> block, lines 57 to 95.\<close>

definition ocr_try :: "env \<Rightarrow> request \<Rightarrow> state \<Rightarrow> (pyexc + json) \<times> state" where
  "ocr_try e rq s =
     (case ingest e rq (files s) of
        (Inl err, fs1) \<Rightarrow> (Inl err, s\<lparr>files := fs1\<rparr>)
      | (Inr image_path, fs1) \<Rightarrow>
          (case ocr s of
             None \<Rightarrow>
               (Inl (AttributeError no_reader_message),
                s\<lparr>files := fs1\<rparr>)
           | Some rd \<Rightarrow>
               (case rd fs1 image_path of
                  Inl err \<Rightarrow>
                    (Inl err, s\<lparr>files := fs1, readtext_calls := readtext_calls s @ [image_path]\<rparr>)
                | Inr result \<Rightarrow>
                    (Inr (format_result result),
                     s\<lparr>files := cleanup image_path fs1,
                       readtext_calls := readtext_calls s @ [image_path]\<rparr>))))"

text \<open>
  The handler. An exception of \<open>initialize_ocr\<close> is raised outside the \<open>try\<close> and
  leaves the handler; one raised inside becomes the 500 response.
\<close>

definition process_ocr :: "env \<Rightarrow> request \<Rightarrow> state \<Rightarrow> (pyexc + response) \<times> state" where
  "process_ocr e rq s =
     (case (if \<not> is_initialized s then initialize_ocr e s else (Inr (), s)) of
        (Inl err, s0) \<Rightarrow> (Inl err, s0)
      | (Inr u, s0) \<Rightarrow>
          if req_files rq ''image'' = None \<and> req_form rq ''image'' = None then
            (Inr \<lparr>body = JObj [(''error'', JStr no_image_message)], status = 400\<rparr>, s0)
          else
            (case ocr_try e rq s0 of
               (Inl error, s1) \<Rightarrow>
                 (Inr \<lparr>body = JObj [(''error'', JStr (''Failed to process image: '' @ str_exc error))],
                       status = 500\<rparr>, s1)
             | (Inr formatted_result, s1) \<Rightarrow>
                 (Inr \<lparr>body = formatted_result, status = 200\<rparr>, s1)))"

text \<open>
  The server's life: the module is loaded (which runs \<open>initialize_ocr\<close> once, and the
  process only serves if that did not raise), then requests arrive in any order, with
  the clock and the filesystem free to change between them.
\<close>

definition startup :: "env \<Rightarrow> filesystem \<Rightarrow> (pyexc + unit) \<times> state" where
  "startup e fs =
     initialize_ocr e \<lparr>ocr = None, is_initialized = False, files = fs, readtext_calls = []\<rparr>"

datatype operation = HealthCheck | InitializeOcr | ProcessOcr real request | Outside filesystem

fun run_op :: "env \<Rightarrow> operation \<Rightarrow> state \<Rightarrow> state" where
  "run_op e HealthCheck s = snd (health_check s)"
| "run_op e InitializeOcr s = snd (initialize_ocr e s)"
| "run_op e (ProcessOcr t rq) s = snd (process_ocr (e\<lparr>time_time := t\<rparr>) rq s)"
| "run_op e (Outside fs) s = s\<lparr>files := fs\<rparr>"

definition run_ops :: "env \<Rightarrow> operation list \<Rightarrow> state \<Rightarrow> state" where
  "run_ops e ops s = fold (run_op e) ops s"

inductive reachable :: "env \<Rightarrow> state \<Rightarrow> bool" for e :: env where
  started: "startup e fs = (Inr (), s) \<Longrightarrow> reachable e s"
| stepped: "reachable e s \<Longrightarrow> reachable e (run_op e op s)"

section \<open>Concrete inputs\<close>

text \<open>A slanted region that sticks out of the image at the top left, and an upright one.\<close>

definition skew_quad :: quad where
  "skew_quad = \<lparr>p0 = (- 3 / 2, - 1 / 2), p1 = (41 / 4, 0), p2 = (10, 35 / 4), p3 = (- 1, 9)\<rparr>"

definition upright_quad :: quad where
  "upright_quad = \<lparr>p0 = (3 / 2, 5 / 2), p1 = (41 / 4, 2), p2 = (10, 35 / 4), p3 = (1, 9)\<rparr>"

text \<open>Two detections.\<close>

definition det_a :: detection where
  "det_a = \<lparr>det_quad = upright_quad, det_text = ''AK-74'', det_conf = 9 / 10\<rparr>"

definition det_b :: detection where
  "det_b = \<lparr>det_quad = skew_quad, det_text = '' x 2 '', det_conf = 1 / 2\<rparr>"

text \<open>
  A stand-in engine, decoder and surroundings for running the handler on concrete
  requests; on the names used here \<open>secure_filename\<close> changes nothing.
\<close>

definition stub_reader :: reader where
  "stub_reader fs image_path =
     (case image_path of
        None \<Rightarrow> Inl (ExternalError ''no image path'')
      | Some p \<Rightarrow>
          (case fs p of
             None \<Rightarrow> Inl (ExternalError ''cannot open image'')
           | Some data \<Rightarrow>
               if data = ''corrupt'' then Inl (ExternalError ''corrupt image'')
               else if data = ''blank'' then Inr []
               else Inr [det_a, det_b]))"

definition stub_b64decode :: "string \<Rightarrow> pyexc + bytes" where
  "stub_b64decode s = (if s = ''QUJD'' then Inr ''ABC'' else Inl (ExternalError ''Incorrect padding''))"

definition demo_env :: env where
  "demo_env = \<lparr>easyocr_Reader = Inr stub_reader, gettempdir = ''/tmp'',
                time_time = 3400000001 / 2, b64decode = stub_b64decode,
                secure_filename = (\<lambda>name. name), write_error = (\<lambda>p. None)\<rparr>"

definition ready_state :: state where
  "ready_state = \<lparr>ocr = Some stub_reader, is_initialized = True, files = Map.empty,
                   readtext_calls = []\<rparr>"

definition upload_request :: "bytes \<Rightarrow> request" where
  "upload_request data =
     \<lparr>req_files = [''image'' \<mapsto> \<lparr>filename = ''scan.png'', content = data\<rparr>],
      req_form = Map.empty\<rparr>"

definition form_request :: "string \<Rightarrow> request" where
  "form_request field = \<lparr>req_files = Map.empty, req_form = [''image'' \<mapsto> field]\<rparr>"

definition empty_request :: request where
  "empty_request = \<lparr>req_files = Map.empty, req_form = Map.empty\<rparr>"

section \<open>Properties of the bounding-box reducer\<close>

lemma py_int_nonneg: "0 \<le> x \<Longrightarrow> py_int x = \<lfloor>x\<rfloor>"
  by (simp add: py_int_def)

lemma py_int_neg: "x < 0 \<Longrightarrow> py_int x = \<lceil>x\<rceil>"
  by (simp add: py_int_def ceiling_def)

lemma py_int_mono:
  assumes le: "x \<le> y"
  shows "py_int x \<le> py_int y"
proof (cases "x < 0")
  case xneg: True
  show ?thesis
  proof (cases "y < 0")
    case True
    have "\<lceil>x\<rceil> \<le> \<lceil>y\<rceil>" using le by (rule ceiling_mono)
    with xneg True show ?thesis by (simp add: py_int_neg)
  next
    case False
    have "\<lceil>x\<rceil> \<le> 0" using xneg by (simp add: ceiling_le_zero)
    moreover have "0 \<le> \<lfloor>y\<rfloor>" using False by simp
    moreover have "py_int x = \<lceil>x\<rceil>" using xneg by (rule py_int_neg)
    moreover have "py_int y = \<lfloor>y\<rfloor>" using False by (simp add: py_int_nonneg)
    ultimately show ?thesis by linarith
  qed
next
  case False
  have "\<lfloor>x\<rfloor> \<le> \<lfloor>y\<rfloor>" using le by (rule floor_mono)
  with le False show ?thesis by (simp add: py_int_nonneg)
qed

text \<open>
  C2, as stated: every coordinate is the floor of the selected minimum or maximum. It
  fails where that value is negative and not whole: \<open>int\<close> gives \<open>-1\<close> for \<open>-1.5\<close>,
  the floor is \<open>-2\<close>.
\<close>

theorem bbox_floor_counterexample:
  "bbox_x0 skew_quad \<noteq> \<lfloor>min (fst (p0 skew_quad)) (fst (p3 skew_quad))\<rfloor>"
  by (simp add: bbox_x0_def skew_quad_def py_int_def)

text \<open>
  C2, amended: every coordinate is the selected minimum or maximum rounded towards zero,
  which is its floor when the value is not negative and its ceiling when it is negative.
\<close>

theorem bbox_rounds_towards_zero:
  "(0 \<le> min (fst (p0 q)) (fst (p3 q)) \<longrightarrow> bbox_x0 q = \<lfloor>min (fst (p0 q)) (fst (p3 q))\<rfloor>) \<and>
   (min (fst (p0 q)) (fst (p3 q)) < 0 \<longrightarrow> bbox_x0 q = \<lceil>min (fst (p0 q)) (fst (p3 q))\<rceil>) \<and>
   (0 \<le> min (snd (p0 q)) (snd (p1 q)) \<longrightarrow> bbox_y0 q = \<lfloor>min (snd (p0 q)) (snd (p1 q))\<rfloor>) \<and>
   (min (snd (p0 q)) (snd (p1 q)) < 0 \<longrightarrow> bbox_y0 q = \<lceil>min (snd (p0 q)) (snd (p1 q))\<rceil>) \<and>
   (0 \<le> max (fst (p1 q)) (fst (p2 q)) \<longrightarrow> bbox_x1 q = \<lfloor>max (fst (p1 q)) (fst (p2 q))\<rfloor>) \<and>
   (max (fst (p1 q)) (fst (p2 q)) < 0 \<longrightarrow> bbox_x1 q = \<lceil>max (fst (p1 q)) (fst (p2 q))\<rceil>) \<and>
   (0 \<le> max (snd (p2 q)) (snd (p3 q)) \<longrightarrow> bbox_y1 q = \<lfloor>max (snd (p2 q)) (snd (p3 q))\<rfloor>) \<and>
   (max (snd (p2 q)) (snd (p3 q)) < 0 \<longrightarrow> bbox_y1 q = \<lceil>max (snd (p2 q)) (snd (p3 q))\<rceil>)"
  unfolding bbox_x0_def bbox_y0_def bbox_x1_def bbox_y1_def
  using py_int_nonneg py_int_neg by blast

theorem bbox_rounds_towards_zero_witness:
  "bbox_x0 skew_quad = \<lceil>- 3 / 2 :: real\<rceil> \<and> bbox_y0 skew_quad = \<lceil>- 1 / 2 :: real\<rceil> \<and>
   bbox_x1 skew_quad = \<lfloor>41 / 4 :: real\<rfloor> \<and> bbox_y1 skew_quad = \<lfloor>9 :: real\<rfloor>"
  using bbox_rounds_towards_zero [of skew_quad]
  by (simp add: skew_quad_def)

text \<open>
  C6: for a quadrilateral in the assumed corner order (both left corners no further
  right than both right corners, both top corners no lower than both bottom corners),
  the box has \<open>x0 \<le> x1\<close> and \<open>y0 \<le> y1\<close>.
\<close>

theorem bbox_ordered:
  "corner_convention q \<Longrightarrow> bbox_x0 q \<le> bbox_x1 q \<and> bbox_y0 q \<le> bbox_y1 q"
proof -
  assume cc: "corner_convention q"
  have "min (fst (p0 q)) (fst (p3 q)) \<le> max (fst (p1 q)) (fst (p2 q))"
    using cc unfolding corner_convention_def by linarith
  moreover have "min (snd (p0 q)) (snd (p1 q)) \<le> max (snd (p2 q)) (snd (p3 q))"
    using cc unfolding corner_convention_def by linarith
  ultimately show ?thesis
    unfolding bbox_x0_def bbox_y0_def bbox_x1_def bbox_y1_def
    by (simp only: py_int_mono)
qed

theorem bbox_ordered_witness:
  "corner_convention upright_quad \<and> bbox_x0 upright_quad \<le> bbox_x1 upright_quad \<and>
   bbox_y0 upright_quad \<le> bbox_y1 upright_quad"
proof -
  have cc: "corner_convention upright_quad"
    by (simp add: corner_convention_def upright_quad_def)
  show ?thesis using cc bbox_ordered [OF cc] by simp
qed

section \<open>Properties of the result assembler\<close>

lemma str_join_Cons:
  "str_join sep (x # xs) = x @ concat (map (\<lambda>t. sep @ t) xs)"
  by (induction xs arbitrary: x) simp_all

lemma str_join_spec: "str_join '' '' xs = spec_space_joined xs"
  by (cases xs) (simp_all add: spec_space_joined_def str_join_Cons)

lemma jget_words: "jget ''words'' (format_result ds) = Some (JList (map word_entry ds))"
  by (simp add: format_result_def)

lemma jget_word_text: "jget ''text'' (word_entry d) = Some (JStr (det_text d))"
  by (simp add: word_entry_def)

text \<open>
  C4: for every sequence of detections, \<open>words\<close> has as many entries as there are
  detections, the \<open>text\<close> of the \<open>i\<close>-th entry is the \<open>i\<close>-th detection's text (the two
  sequences of texts are equal, so order and duplicates are kept and nothing is trimmed),
  and \<open>text\<close> is the detections' texts joined by single spaces in engine order.
\<close>

theorem format_result_words_and_text:
  "jget ''text'' (format_result ds) = Some (JStr (spec_space_joined (map det_text ds))) \<and>
   (\<exists>ws. jget ''words'' (format_result ds) = Some (JList ws) \<and>
         length ws = length ds \<and>
         map (jget ''text'') ws = map (\<lambda>d. Some (JStr (det_text d))) ds)"
proof
  show "jget ''text'' (format_result ds) = Some (JStr (spec_space_joined (map det_text ds)))"
    by (simp add: format_result_def str_join_spec)
next
  have "map (jget ''text'') (map word_entry ds) = map (\<lambda>d. Some (JStr (det_text d))) ds"
    by (simp add: jget_word_text)
  then show "\<exists>ws. jget ''words'' (format_result ds) = Some (JList ws) \<and>
         length ws = length ds \<and>
         map (jget ''text'') ws = map (\<lambda>d. Some (JStr (det_text d))) ds"
    using jget_words [of ds] by (intro exI [of _ "map word_entry ds"]) simp
qed

lemma map_word_entry_zip:
  "map word_entry ds =
     map (\<lambda>(q, t). JObj [(''text'', JStr t), (''bbox'', bbox q)])
       (zip (map det_quad ds) (map det_text ds))"
  by (induction ds) (simp_all add: word_entry_def)

lemma map_word_entry_cong:
  assumes "map det_quad ds = map det_quad ds'" and "map det_text ds = map det_text ds'"
  shows "map word_entry ds = map word_entry ds'"
  unfolding map_word_entry_zip using assms by (simp only:)

text \<open>
  C8: two detection sequences with the same quadrilaterals and the same texts, element by
  element, give the same response whatever their confidence values are.
\<close>

theorem confidence_has_no_influence:
  "map det_quad ds = map det_quad ds' \<Longrightarrow> map det_text ds = map det_text ds' \<Longrightarrow>
   format_result ds = format_result ds'"
  using map_word_entry_cong [of ds ds'] by (simp add: format_result_def)

theorem confidence_has_no_influence_witness:
  "map det_quad [det_a, det_b] = map det_quad [det_a\<lparr>det_conf := 0\<rparr>, det_b\<lparr>det_conf := 1\<rparr>] \<and>
   map det_text [det_a, det_b] = map det_text [det_a\<lparr>det_conf := 0\<rparr>, det_b\<lparr>det_conf := 1\<rparr>] \<and>
   [det_a, det_b] \<noteq> [det_a\<lparr>det_conf := 0\<rparr>, det_b\<lparr>det_conf := 1\<rparr>] \<and>
   format_result [det_a, det_b] = format_result [det_a\<lparr>det_conf := 0\<rparr>, det_b\<lparr>det_conf := 1\<rparr>]"
proof -
  have q: "map det_quad [det_a, det_b] = map det_quad [det_a\<lparr>det_conf := 0\<rparr>, det_b\<lparr>det_conf := 1\<rparr>]"
    by simp
  have t: "map det_text [det_a, det_b] = map det_text [det_a\<lparr>det_conf := 0\<rparr>, det_b\<lparr>det_conf := 1\<rparr>]"
    by simp
  have n: "[det_a, det_b] \<noteq> [det_a\<lparr>det_conf := 0\<rparr>, det_b\<lparr>det_conf := 1\<rparr>]"
    by (simp add: det_a_def)
  from q t n confidence_has_no_influence [OF q t] show ?thesis by blast
qed

section \<open>Properties of the numeric normalizer\<close>

lemma is_list_item: "\<not> is_list (np_item v)"
  by (cases v) simp_all

lemma is_list_tolist: "is_list (tolist a) = has_dimensions a"
  by (cases a) (simp_all add: is_list_item)

text \<open>An array with an empty first axis, of whatever shape, becomes the empty list.\<close>

lemma empty_first_axis:
  "NumpyEncoder_default (NdArray (Axis [])) = Inr (JList []) \<and> has_dimensions (Axis [])"
  by (simp add: NumpyEncoder_default_def)

text \<open>
  C7, as stated: every array is turned into a list. It fails for a zero-dimensional
  array, whose \<open>tolist()\<close> is a bare scalar.
\<close>

theorem array_to_list_counterexample:
  "NumpyEncoder_default (NdArray (Item (NpInt 5))) = Inr (JInt 5) \<and> \<not> is_list (JInt 5)"
  by (simp add: NumpyEncoder_default_def)

text \<open>
  C7, amended: a NumPy integer becomes the \<open>int\<close> of the same value, a NumPy float the
  \<open>float\<close> of the same value, an array of one or more dimensions the list of its
  converted sub-arrays (so the conversion recurs into them), and a zero-dimensional array
  its scalar; the result for an array is a list exactly when the array has at least one
  dimension. Any other object goes to the base class's \<open>default\<close>, which raises
  \<open>TypeError\<close>. Floats being idealised as reals, the float clause says which branch
  is taken and that it hands the value on; it says nothing about the rounding of a
  NumPy float wider than a \<open>float\<close>.
\<close>

theorem NumpyEncoder_default_cases:
  "NumpyEncoder_default (NpInteger i) = Inr (JInt i) \<and>
   NumpyEncoder_default (NpFloating x) = Inr (JFloat x) \<and>
   NumpyEncoder_default (NdArray (Axis xs)) = Inr (JList (map tolist xs)) \<and>
   NumpyEncoder_default (NdArray (Item v)) = Inr (np_item v) \<and>
   (\<exists>j. NumpyEncoder_default (NdArray a) = Inr j \<and> is_list j = has_dimensions a) \<and>
   NumpyEncoder_default (Other tyname) = JSONEncoder_default tyname \<and>
   (\<exists>m. JSONEncoder_default tyname = Inl (TypeError m))"
  by (simp add: NumpyEncoder_default_def JSONEncoder_default_def is_list_tolist)

section \<open>Properties of the endpoints\<close>

lemma demo_startup: "startup demo_env Map.empty = (Inr (), ready_state)"
  by (simp add: startup_def initialize_ocr_def demo_env_def ready_state_def)

lemma demo_reachable: "reachable demo_env ready_state"
  using demo_startup by (rule reachable.started)

lemma demo_ingest_upload:
  "ingest demo_env (upload_request data) fs = (Inr (Some ''/tmp/scan.png''), fs(''/tmp/scan.png'' \<mapsto> data))"
  by (simp add: ingest_def upload_request_def demo_env_def write_file_def os_path_join_def)

lemma ocr_try_globals:
  "ocr (snd (ocr_try e rq s)) = ocr s \<and> is_initialized (snd (ocr_try e rq s)) = is_initialized s"
  by (simp add: ocr_try_def split: prod.splits sum.splits option.splits)

lemma initialize_ocr_flag:
  "is_initialized s \<Longrightarrow> is_initialized (snd (initialize_ocr e s))"
  by (simp add: initialize_ocr_def split: sum.splits)

lemma initialize_ocr_engine:
  "ocr s \<noteq> None \<Longrightarrow> ocr (snd (initialize_ocr e s)) \<noteq> None"
  by (auto simp: initialize_ocr_def)

lemma process_ocr_globals:
  "is_initialized s \<Longrightarrow>
   ocr (snd (process_ocr e rq s)) = ocr s \<and> is_initialized (snd (process_ocr e rq s))"
proof -
  assume i: "is_initialized s"
  obtain r s1 where t: "ocr_try e rq s = (r, s1)" by (cases "ocr_try e rq s")
  with ocr_try_globals [of e rq s] i have "ocr s1 = ocr s" "is_initialized s1" by simp_all
  with i t show ?thesis
    by (cases r) (simp_all add: process_ocr_def)
qed

lemma run_op_flag: "is_initialized s \<Longrightarrow> is_initialized (run_op e op s)"
  by (cases op) (simp_all add: health_check_def initialize_ocr_flag process_ocr_globals)

lemma run_op_engine:
  "is_initialized s \<Longrightarrow> ocr s \<noteq> None \<Longrightarrow> ocr (run_op e op s) \<noteq> None"
  by (cases op) (simp_all add: health_check_def initialize_ocr_engine process_ocr_globals)

lemma run_ops_flag: "is_initialized s \<Longrightarrow> is_initialized (run_ops e ops s)"
  unfolding run_ops_def by (induction ops arbitrary: s) (simp_all add: run_op_flag)

lemma reachable_ready: "reachable e s \<Longrightarrow> is_initialized s \<and> ocr s \<noteq> None"
proof (induction rule: reachable.induct)
  case (started fs s)
  then show ?case
    by (auto simp: startup_def initialize_ocr_def split: sum.splits)
next
  case (stepped s op)
  then show ?case by (simp add: run_op_flag run_op_engine)
qed

lemma ingest_path_exists: "ingest e rq fs = (Inr (Some p), fs1) \<Longrightarrow> fs1 p \<noteq> None"
  by (auto simp: ingest_def write_file_def split: option.splits sum.splits)

lemma failure_branch_keeps_file:
  assumes "is_initialized s" and "ocr s = Some rd"
    and "\<not> (req_files rq ''image'' = None \<and> req_form rq ''image'' = None)"
    and "ingest e rq (files s) = (Inr (Some p), fs1)"
    and "rd fs1 (Some p) = Inl err"
  shows "process_ocr e rq s =
           (Inr \<lparr>body = JObj [(''error'', JStr (''Failed to process image: '' @ str_exc err))],
                 status = 500\<rparr>,
            s\<lparr>files := fs1, readtext_calls := readtext_calls s @ [Some p]\<rparr>) \<and>
         fs1 p \<noteq> None"
proof -
  have "ocr_try e rq s =
      (Inl err, s\<lparr>files := fs1, readtext_calls := readtext_calls s @ [Some p]\<rparr>)"
    using assms(2,4,5) by (simp add: ocr_try_def)
  with assms(1,3) ingest_path_exists [OF assms(4)] show ?thesis
    by (simp add: process_ocr_def)
qed

lemma success_branch_removes_file:
  assumes "is_initialized s" and "ocr s = Some rd"
    and "\<not> (req_files rq ''image'' = None \<and> req_form rq ''image'' = None)"
    and "ingest e rq (files s) = (Inr (Some p), fs1)"
    and "rd fs1 (Some p) = Inr result"
    and "p \<noteq> []"
  shows "fst (process_ocr e rq s) = Inr \<lparr>body = format_result result, status = 200\<rparr> \<and>
         files (snd (process_ocr e rq s)) p = None"
proof -
  have "ocr_try e rq s =
      (Inr (format_result result),
       s\<lparr>files := cleanup (Some p) fs1, readtext_calls := readtext_calls s @ [Some p]\<rparr>)"
    using assms(2,4,5) by (simp add: ocr_try_def)
  with assms(1,3,6) show ?thesis
    by (simp add: process_ocr_def cleanup_def)
qed

text \<open>
  C1: the temporary file is to be gone when the response is returned, on the failure
  branch as on the success branch. The handler removes it only after a successful
  \<open>readtext\<close> (\<open>success_branch_removes_file\<close>); when \<open>readtext\<close> raises, control goes
  straight to the \<open>except\<close> clause and the file stays (\<open>failure_branch_keeps_file\<close>).
  Here an upload that the engine rejects: the answer is the 500 error, and
  \<open>/tmp/scan.png\<close>, absent before the request, exists after it.
\<close>

theorem engine_failure_leaves_temp_file:
  "fst (process_ocr demo_env (upload_request ''corrupt'') ready_state) =
     Inr \<lparr>body = JObj [(''error'', JStr ''Failed to process image: corrupt image'')], status = 500\<rparr> \<and>
   files ready_state ''/tmp/scan.png'' = None \<and>
   files (snd (process_ocr demo_env (upload_request ''corrupt'') ready_state)) ''/tmp/scan.png'' =
     Some ''corrupt''"
proof -
  have t: "ocr_try demo_env (upload_request ''corrupt'') ready_state =
      (Inl (ExternalError ''corrupt image''),
       ready_state\<lparr>files := [''/tmp/scan.png'' \<mapsto> ''corrupt''],
                    readtext_calls := [Some ''/tmp/scan.png'']\<rparr>)"
    by (simp add: ocr_try_def demo_ingest_upload ready_state_def stub_reader_def)
  have p: "req_files (upload_request ''corrupt'') ''image'' \<noteq> None"
    by (simp add: upload_request_def)
  have i: "is_initialized ready_state" by (simp add: ready_state_def)
  show ?thesis
    using p i by (simp add: process_ocr_def t) (simp add: ready_state_def)
qed

lemma no_image_message_mentions_image:
  "\<exists>pre suf. no_image_message = pre @ ''image'' @ suf"
proof -
  have \<open>no_image_message =
      ''No image provided. Send a file with field name "'' @ ''image'' @
      ''" or a base64 encoded image in the request body.''\<close>
    by (simp add: no_image_message_def)
  then show ?thesis by blast
qed

text \<open>
  C5: in a running server, a request with no \<open>image\<close> key in its files and none in its
  form fields is answered with status 400 and an \<open>error\<close> message that mentions the field
  name \<open>image\<close>; the state is unchanged, so no temporary file is created and \<open>readtext\<close>
  is not called.
\<close>

theorem missing_image_gives_400:
  assumes "reachable e s"
    and "''image'' \<notin> dom (req_files rq)"
    and "''image'' \<notin> dom (req_form rq)"
  shows "process_ocr e' rq s =
           (Inr \<lparr>body = JObj [(''error'', JStr no_image_message)], status = 400\<rparr>, s) \<and>
         (\<exists>pre suf. no_image_message = pre @ ''image'' @ suf) \<and>
         files (snd (process_ocr e' rq s)) = files s \<and>
         readtext_calls (snd (process_ocr e' rq s)) = readtext_calls s"
proof -
  from assms(1) have "is_initialized s" by (simp add: reachable_ready)
  moreover from assms(2,3) have "req_files rq ''image'' = None" "req_form rq ''image'' = None"
    by (simp_all add: domIff)
  ultimately have "process_ocr e' rq s =
      (Inr \<lparr>body = JObj [(''error'', JStr no_image_message)], status = 400\<rparr>, s)"
    by (simp add: process_ocr_def)
  with no_image_message_mentions_image show ?thesis by simp
qed

theorem missing_image_gives_400_witness:
  "reachable demo_env ready_state \<and>
   ''image'' \<notin> dom (req_files empty_request) \<and> ''image'' \<notin> dom (req_form empty_request) \<and>
   process_ocr demo_env empty_request ready_state =
     (Inr \<lparr>body = JObj [(''error'', JStr no_image_message)], status = 400\<rparr>, ready_state) \<and>
   readtext_calls (snd (process_ocr demo_env empty_request ready_state)) = []"
proof -
  have r: "reachable demo_env ready_state" by (rule demo_reachable)
  have f: "''image'' \<notin> dom (req_files empty_request)" by (simp add: empty_request_def)
  have g: "''image'' \<notin> dom (req_form empty_request)" by (simp add: empty_request_def)
  have c: "readtext_calls ready_state = []" by (simp add: ready_state_def)
  from missing_image_gives_400 [OF r f g, of demo_env] r f g c show ?thesis by simp
qed

text \<open>
  C9: when the image was taken in and the engine returns no detections, the answer has
  status 200 and the body \<open>{"text": "", "words": []}\<close>.
\<close>

theorem empty_detections_give_empty_response:
  assumes "reachable e s"
    and "ocr s = Some rd"
    and "''image'' \<in> dom (req_files rq) \<or> ''image'' \<in> dom (req_form rq)"
    and "ingest e' rq (files s) = (Inr image_path, fs1)"
    and "rd fs1 image_path = Inr []"
  shows "fst (process_ocr e' rq s) =
           Inr \<lparr>body = JObj [(''text'', JStr ''''), (''words'', JList [])], status = 200\<rparr>"
proof -
  from assms(1) have i: "is_initialized s" by (simp add: reachable_ready)
  from assms(3) have p: "\<not> (req_files rq ''image'' = None \<and> req_form rq ''image'' = None)"
    by (auto simp: domIff)
  have "fst (ocr_try e' rq s) = Inr (format_result [])"
    using assms(2,4,5) by (simp add: ocr_try_def)
  then obtain s1 where "ocr_try e' rq s = (Inr (format_result []), s1)"
    by (cases "ocr_try e' rq s") simp
  with i p show ?thesis
    by (simp add: process_ocr_def format_result_def)
qed

theorem empty_detections_give_empty_response_witness:
  "reachable demo_env ready_state \<and> ocr ready_state = Some stub_reader \<and>
   ''image'' \<in> dom (req_files (upload_request ''blank'')) \<and>
   fst (process_ocr demo_env (upload_request ''blank'') ready_state) =
     Inr \<lparr>body = JObj [(''text'', JStr ''''), (''words'', JList [])], status = 200\<rparr>"
proof -
  have r: "reachable demo_env ready_state" by (rule demo_reachable)
  have o: "ocr ready_state = Some stub_reader" by (simp add: ready_state_def)
  have d: "''image'' \<in> dom (req_files (upload_request ''blank''))"
    by (simp add: upload_request_def)
  then have p: "''image'' \<in> dom (req_files (upload_request ''blank'')) \<or>
      ''image'' \<in> dom (req_form (upload_request ''blank''))" ..
  have g: "ingest demo_env (upload_request ''blank'') (files ready_state) =
      (Inr (Some ''/tmp/scan.png''), (files ready_state)(''/tmp/scan.png'' \<mapsto> ''blank''))"
    by (rule demo_ingest_upload)
  have e: "stub_reader ((files ready_state)(''/tmp/scan.png'' \<mapsto> ''blank'')) (Some ''/tmp/scan.png'') = Inr []"
    by (simp add: stub_reader_def)
  from empty_detections_give_empty_response [OF r o p g e] r o d show ?thesis by simp
qed

text \<open>
  C10: \<open>initialize_ocr\<close> on a state that already has an engine changes nothing, and no
  sequence of health checks, OCR requests and initializations (with the filesystem
  changing in between) turns \<open>is_initialized\<close> from true to false.
\<close>

theorem initialize_idempotent_flag_monotone:
  "(ocr s \<noteq> None \<longrightarrow> initialize_ocr e s = (Inr (), s)) \<and>
   (is_initialized s \<longrightarrow> is_initialized (run_ops e ops s))"
  by (simp add: initialize_ocr_def run_ops_flag)

theorem initialize_idempotent_flag_monotone_witness:
  "ocr ready_state \<noteq> None \<and> is_initialized ready_state \<and>
   initialize_ocr demo_env ready_state = (Inr (), ready_state) \<and>
   is_initialized (run_ops demo_env
     [HealthCheck, ProcessOcr 1700000000 (upload_request ''corrupt''), InitializeOcr,
      ProcessOcr 1700000001 empty_request, Outside Map.empty] ready_state)"
proof -
  have o: "ocr ready_state \<noteq> None" by (simp add: ready_state_def)
  have i: "is_initialized ready_state" by (simp add: ready_state_def)
  from initialize_idempotent_flag_monotone [of ready_state demo_env
      "[HealthCheck, ProcessOcr 1700000000 (upload_request ''corrupt''), InitializeOcr,
        ProcessOcr 1700000001 empty_request, Outside Map.empty]"] o i
  show ?thesis by blast
qed

section \<open>Properties of the image ingestor\<close>

lemma split_on_not_Nil: "split_on c s \<noteq> []"
  by (induction s) (simp_all split: list.splits)

lemma split_on_hd: "hd (split_on c s) = takeWhile (\<lambda>x. x \<noteq> c) s"
  using split_on_not_Nil [of c] by (induction s) (auto split: list.splits)

lemma split_on_tl:
  "c \<in> set s \<Longrightarrow> tl (split_on c s) = split_on c (drop 1 (dropWhile (\<lambda>x. x \<noteq> c) s))"
  using split_on_not_Nil [of c] by (induction s) (auto split: list.splits)

lemma split_on_second:
  assumes "c \<in> set s"
  shows "1 < length (split_on c s) \<and>
         split_on c s ! 1 = takeWhile (\<lambda>x. x \<noteq> c) (drop 1 (dropWhile (\<lambda>x. x \<noteq> c) s))"
proof -
  let ?rest = "drop 1 (dropWhile (\<lambda>x. x \<noteq> c) s)"
  obtain a as where sp: "split_on c s = a # as"
    using split_on_not_Nil [of c s] by (cases "split_on c s") auto
  with split_on_tl [OF assms] have as: "as = split_on c ?rest" by simp
  obtain b bs where r: "split_on c ?rest = b # bs"
    using split_on_not_Nil [of c ?rest] by (cases "split_on c ?rest") auto
  with split_on_hd [of c ?rest] have "b = takeWhile (\<lambda>x. x \<noteq> c) ?rest" by simp
  with sp as r show ?thesis by simp
qed

lemma base64_data_comma:
  "CHR '','' \<in> set field \<Longrightarrow>
   base64_data field = Inr (takeWhile (\<lambda>c. c \<noteq> CHR '','') (after_first_comma field))"
  using split_on_second [of "CHR '',''" field]
  by (simp add: base64_data_def py_index_def after_first_comma_def)

lemma demo_timestamp: "str_int (py_int (time_time demo_env)) = ''1700000000''"
  by (simp add: demo_env_def py_int_def str_int_def digits.simps)

text \<open>
  C3, as stated: the payload is everything after the first comma, further commas
  included. With a second comma in the field, \<open>split(',')[1]\<close> stops at it.
\<close>

theorem payload_is_whole_remainder_counterexample:
  "base64_data ''data:image/png;base64,QUJD,REVG'' = Inr ''QUJD'' \<and>
   after_first_comma ''data:image/png;base64,QUJD,REVG'' = ''QUJD,REVG''"
  by (simp add: base64_data_def py_index_def after_first_comma_def)

text \<open>
  C3, amended: in base64 mode, for a field with at least one comma, the payload is the
  part between the first comma and the next one (the whole remainder when there is no
  further comma); when it decodes and the file can be written, the decoded bytes are
  written to \<open>image-<seconds>.png\<close> in the temporary directory.
\<close>

theorem base64_mode_payload:
  assumes "CHR '','' \<in> set field"
    and "req_files rq ''image'' = None"
    and "req_form rq ''image'' = Some field"
    and "b64decode e (takeWhile (\<lambda>c. c \<noteq> CHR '','') (after_first_comma field)) = Inr image_data"
    and "write_error e (os_path_join (gettempdir e)
           (''image-'' @ str_int (py_int (time_time e)) @ ''.png'')) = None"
  shows "base64_data field = Inr (takeWhile (\<lambda>c. c \<noteq> CHR '','') (after_first_comma field)) \<and>
         (CHR '','' \<notin> set (after_first_comma field) \<longrightarrow>
            base64_data field = Inr (after_first_comma field)) \<and>
         ingest e rq fs =
           (Inr (Some (os_path_join (gettempdir e)
                   (''image-'' @ str_int (py_int (time_time e)) @ ''.png''))),
            fs(os_path_join (gettempdir e)
                 (''image-'' @ str_int (py_int (time_time e)) @ ''.png'') \<mapsto> image_data))"
proof -
  have b: "base64_data field = Inr (takeWhile (\<lambda>c. c \<noteq> CHR '','') (after_first_comma field))"
    using assms(1) by (rule base64_data_comma)
  have "CHR '','' \<notin> set (after_first_comma field) \<Longrightarrow>
      takeWhile (\<lambda>c. c \<noteq> CHR '','') (after_first_comma field) = after_first_comma field"
    by (rule takeWhile_eq_all_conv [THEN iffD2]) auto
  with b have w: "CHR '','' \<notin> set (after_first_comma field) \<longrightarrow>
      base64_data field = Inr (after_first_comma field)" by simp
  have "ingest e rq fs =
           (Inr (Some (os_path_join (gettempdir e)
                   (''image-'' @ str_int (py_int (time_time e)) @ ''.png''))),
            fs(os_path_join (gettempdir e)
                 (''image-'' @ str_int (py_int (time_time e)) @ ''.png'') \<mapsto> image_data))"
    using assms(2-5) b by (simp add: ingest_def write_file_def)
  with b w show ?thesis by blast
qed

theorem base64_mode_payload_witness:
  "CHR '','' \<in> set ''data:image/png;base64,QUJD'' \<and>
   base64_data ''data:image/png;base64,QUJD'' = Inr ''QUJD'' \<and>
   ingest demo_env (form_request ''data:image/png;base64,QUJD'') Map.empty =
     (Inr (Some ''/tmp/image-1700000000.png''), [''/tmp/image-1700000000.png'' \<mapsto> ''ABC''])"
proof -
  have a: "after_first_comma ''data:image/png;base64,QUJD'' = ''QUJD''"
    by (simp add: after_first_comma_def)
  have p: "os_path_join (gettempdir demo_env)
      (''image-'' @ str_int (py_int (time_time demo_env)) @ ''.png'') = ''/tmp/image-1700000000.png''"
    by (simp add: demo_timestamp) (simp add: os_path_join_def demo_env_def)
  have c: "CHR '','' \<in> set ''data:image/png;base64,QUJD''" by simp
  have f: "req_files (form_request ''data:image/png;base64,QUJD'') ''image'' = None"
    by (simp add: form_request_def)
  have g: "req_form (form_request ''data:image/png;base64,QUJD'') ''image'' =
      Some ''data:image/png;base64,QUJD''"
    by (simp add: form_request_def)
  have d: "b64decode demo_env
      (takeWhile (\<lambda>c. c \<noteq> CHR '','') (after_first_comma ''data:image/png;base64,QUJD'')) = Inr ''ABC''"
    by (simp add: a) (simp add: demo_env_def stub_b64decode_def)
  have w: "write_error demo_env (os_path_join (gettempdir demo_env)
      (''image-'' @ str_int (py_int (time_time demo_env)) @ ''.png'')) = None"
    by (simp add: demo_env_def)
  from base64_mode_payload [OF c f g d w, of Map.empty] c a p show ?thesis by simp
qed

end
